theory Spec2Isabelle
  imports Complex_Main "HOL-Library.Word"
begin

unbundle bit_operations_syntax

section \<open>Status codes\<close>

text \<open>
  \<open>global_utils.h\<close> is not part of the sources at hand; its two status codes are the
  results of the initialisers.
\<close>

datatype status = SUCCESS | FAILURE

section \<open>The PID component: data\<close>

text \<open>
  The controller computes on C \<open>double\<close>s. They are modelled as \<^typ>\<open>real\<close>: the
  comparisons, assignments and clamps of the source are exact on finite values, and
  rounding, infinities and NaN are outside the model. The one place where the source
  divides by a value that is zero in ordinary use (an integral gain of 0 in the
  anti-windup bound) is written out below.

  \<open>pid.h\<close>, \<open>control_sys.h\<close> and \<open>gimbal.h\<close> are not part of the sources at hand, so the
  structs are taken from the fields that \<open>pid.c\<close> reads and writes, and the macros
  \<open>CONTROL_SYS_WAIT\<close>, \<open>STEPS_PER_REVOLUTION\<close>, \<open>MICRO_STEP_FACTOR\<close> and
  \<open>GEARBOX_RATIO\<close> are parameters.
\<close>

record pid_values_t =
  kp :: real
  ki :: real
  kd :: real

record control_variables_t =
  current_position :: real
  target_position :: real
  position_error :: real
  integral :: real
  derivative :: real
  pid_output :: real
  time_in_seconds :: real

record telescope_att_t =
  att_az :: real
  att_alt :: real

record motor_step_t =
  mot_az :: int
  mot_alt :: int

text \<open>The file-level statics of \<open>pid.c\<close>. \<open>first_iteration\<close> is a \<open>char\<close> used as a flag.\<close>

record pid_statics =
  current_az_pid_values :: pid_values_t
  current_alt_pid_values :: pid_values_t
  max_motor_ang :: real
  max_change_rate :: real
  stab_az_pid_values :: pid_values_t
  stab_alt_pid_values :: pid_values_t
  track_az_pid_values :: pid_values_t
  track_alt_pid_values :: pid_values_t
  az_prev_control_vars :: control_variables_t
  az_current_control_vars :: control_variables_t
  alt_prev_control_vars :: control_variables_t
  alt_current_control_vars :: control_variables_t
  stabilization_timestep :: real
  sim_time :: real
  sim_start :: real
  threshold :: int
  step_per_deg :: real
  first_iteration :: bool

definition zero_pid_values :: pid_values_t where
  "zero_pid_values = \<lparr>kp = 0, ki = 0, kd = 0\<rparr>"

definition zero_control_vars :: control_variables_t where
  "zero_control_vars =
     \<lparr>current_position = 0, target_position = 0, position_error = 0, integral = 0,
      derivative = 0, pid_output = 0, time_in_seconds = 0\<rparr>"

text \<open>
  The statics as the loader leaves them: the initialisers of the source, zero for
  everything without one. \<open>CONTROL_SYS_WAIT\<close> is a period in nanoseconds.
\<close>

definition pid_static_init :: "real \<Rightarrow> pid_statics" where
  "pid_static_init CONTROL_SYS_WAIT =
     \<lparr>current_az_pid_values = zero_pid_values,
      current_alt_pid_values = zero_pid_values,
      max_motor_ang = 0,
      max_change_rate = 0,
      stab_az_pid_values = \<lparr>kp = 673 / 10000, ki = 5 / 100, kd = 152 / 10000\<rparr>,
      stab_alt_pid_values = \<lparr>kp = 673 / 10000, ki = 5 / 100, kd = 152 / 10000\<rparr>,
      track_az_pid_values = \<lparr>kp = 1 / 10, ki = 1 / 100, kd = 1\<rparr>,
      track_alt_pid_values = \<lparr>kp = 1, ki = 2 / 10, kd = 0\<rparr>,
      az_prev_control_vars = zero_control_vars,
      az_current_control_vars = zero_control_vars,
      alt_prev_control_vars = zero_control_vars,
      alt_current_control_vars = zero_control_vars,
      stabilization_timestep = CONTROL_SYS_WAIT / 1000000000,
      sim_time = 0,
      sim_start = 0,
      threshold = 0,
      step_per_deg = 0,
      first_iteration = True\<rparr>"

section \<open>The gain store\<close>

text \<open>
  The two mutexes of the gain sets are part of the state of the gain store, since one
  path of the source returns with a mutex still locked. Both are statically initialised
  with \<open>PTHREAD_MUTEX_INITIALIZER\<close>.
\<close>

datatype mutex = Unlocked | Locked

record gain_mutexes =
  az_pid_values_mutex :: mutex
  alt_pid_values_mutex :: mutex

definition gain_mutexes_init :: gain_mutexes where
  "gain_mutexes_init = \<lparr>az_pid_values_mutex = Unlocked, alt_pid_values_mutex = Unlocked\<rparr>"

text \<open>
  A call on the gain store either returns, with its C return value, or it blocks in
  \<open>pthread_mutex_lock\<close> on a mutex that is locked. Every \<open>pthread_mutex_unlock\<close> of a
  gain mutex in the source follows a \<open>pthread_mutex_lock\<close> of the same mutex in the same
  function, except the one on the error path below, which unlocks the azimuth mutex; so
  a gain mutex that a returned call has left locked is never unlocked again, and a call
  that blocks on it never returns. \<open>Blocked\<close> carries the mutexes and the statics as the
  call has left them when it blocks. Unlocking a mutex that is not locked leaves it
  unlocked. Calls to the logger have no effect on the statics and are left out.
\<close>

datatype 'r outcome =
    Returned 'r gain_mutexes pid_statics
  | Blocked gain_mutexes pid_statics

fun statics_of :: "'r outcome \<Rightarrow> pid_statics" where
  "statics_of (Returned r m s) = s"
| "statics_of (Blocked m s) = s"

fun mutexes_of :: "'r outcome \<Rightarrow> gain_mutexes" where
  "mutexes_of (Returned r m s) = m"
| "mutexes_of (Blocked m s) = m"

fun result_of :: "'r outcome \<Rightarrow> 'r option" where
  "result_of (Returned r m s) = Some r"
| "result_of (Blocked m s) = None"

definition change_pid_values ::
    "int \<Rightarrow> real \<Rightarrow> real \<Rightarrow> real \<Rightarrow> gain_mutexes \<Rightarrow> pid_statics \<Rightarrow> int outcome" where
  "change_pid_values motor_id new_p new_i new_d m s =
     (if motor_id = 1 then
        (if az_pid_values_mutex m = Locked then Blocked m s
         else Returned 0 (m\<lparr>az_pid_values_mutex := Unlocked\<rparr>)
                (s\<lparr>current_az_pid_values := \<lparr>kp = new_p, ki = new_i, kd = new_d\<rparr>\<rparr>))
      else if motor_id = 2 then
        (if alt_pid_values_mutex m = Locked then Blocked m s
         else Returned 0 (m\<lparr>alt_pid_values_mutex := Unlocked\<rparr>)
                (s\<lparr>current_alt_pid_values := \<lparr>kp = new_p, ki = new_i, kd = new_d\<rparr>\<rparr>))
      else Returned 1 m s)"

text \<open>
  For the altitude motor and a wrong mode id, the source unlocks \<open>az_pid_values_mutex\<close>
  and returns 1 with \<open>alt_pid_values_mutex\<close> still locked.
\<close>

definition change_mode_pid_values ::
    "int \<Rightarrow> int \<Rightarrow> real \<Rightarrow> real \<Rightarrow> real \<Rightarrow> gain_mutexes \<Rightarrow> pid_statics
       \<Rightarrow> int outcome" where
  "change_mode_pid_values motor_id mode_id new_p new_i new_d m s =
     (if motor_id = 1 then
        (if az_pid_values_mutex m = Locked then Blocked m s
         else if mode_id = 1 then
           Returned 0 (m\<lparr>az_pid_values_mutex := Unlocked\<rparr>)
             (s\<lparr>track_az_pid_values := \<lparr>kp = new_p, ki = new_i, kd = new_d\<rparr>\<rparr>)
         else if mode_id = 2 then
           Returned 0 (m\<lparr>az_pid_values_mutex := Unlocked\<rparr>)
             (s\<lparr>stab_az_pid_values := \<lparr>kp = new_p, ki = new_i, kd = new_d\<rparr>\<rparr>)
         else Returned 1 (m\<lparr>az_pid_values_mutex := Unlocked\<rparr>) s)
      else if motor_id = 2 then
        (if alt_pid_values_mutex m = Locked then Blocked m s
         else if mode_id = 1 then
           Returned 0 (m\<lparr>alt_pid_values_mutex := Unlocked\<rparr>)
             (s\<lparr>track_alt_pid_values := \<lparr>kp = new_p, ki = new_i, kd = new_d\<rparr>\<rparr>)
         else if mode_id = 2 then
           Returned 0 (m\<lparr>alt_pid_values_mutex := Unlocked\<rparr>)
             (s\<lparr>stab_alt_pid_values := \<lparr>kp = new_p, ki = new_i, kd = new_d\<rparr>\<rparr>)
         else Returned 1 (m\<lparr>alt_pid_values_mutex := Locked, az_pid_values_mutex := Unlocked\<rparr>) s)
      else Returned 1 m s)"

text \<open>
  \<open>change_stabilization_mode\<close> takes the azimuth mutex, copies the azimuth set and
  releases the mutex, and then does the same for altitude: when it blocks on the altitude
  mutex, the azimuth set has already been copied.
\<close>

definition change_stabilization_mode ::
    "int \<Rightarrow> gain_mutexes \<Rightarrow> pid_statics \<Rightarrow> int outcome" where
  "change_stabilization_mode on_off m s =
     (if on_off = 1 then
        (if az_pid_values_mutex m = Locked then Blocked m s
         else
           let m1 = m\<lparr>az_pid_values_mutex := Unlocked\<rparr>;
               s1 = s\<lparr>current_az_pid_values := stab_az_pid_values s\<rparr>
           in if alt_pid_values_mutex m1 = Locked then Blocked m1 s1
              else Returned 0 (m1\<lparr>alt_pid_values_mutex := Unlocked\<rparr>)
                     (s1\<lparr>current_alt_pid_values := stab_alt_pid_values s1\<rparr>))
      else if on_off = 0 then
        (if az_pid_values_mutex m = Locked then Blocked m s
         else
           let m1 = m\<lparr>az_pid_values_mutex := Unlocked\<rparr>;
               s1 = s\<lparr>current_az_pid_values := track_az_pid_values s\<rparr>
           in if alt_pid_values_mutex m1 = Locked then Blocked m1 s1
              else Returned 0 (m1\<lparr>alt_pid_values_mutex := Unlocked\<rparr>)
                     (s1\<lparr>current_alt_pid_values := track_alt_pid_values s1\<rparr>))
      else Returned 1 m s)"

text \<open>
  \<open>pid_reset\<close> and \<open>pid_update\<close> bracket their work with the two mutexes of the control
  variables, which no path leaves locked; these are not part of the model. \<open>pid_update\<close>
  also takes each gain mutex once, inside \<open>motor_control_step\<close>, around the read of the
  gains; it is modelled below as the step it performs when the gain mutexes are free.
\<close>

definition pid_reset :: "pid_statics \<Rightarrow> pid_statics" where
  "pid_reset s =
     s\<lparr>az_prev_control_vars := (az_prev_control_vars s)\<lparr>position_error := 0, integral := 0\<rparr>,
       az_current_control_vars :=
         (az_current_control_vars s)\<lparr>position_error := 0, integral := 0\<rparr>,
       alt_prev_control_vars := (alt_prev_control_vars s)\<lparr>position_error := 0, integral := 0\<rparr>,
       alt_current_control_vars :=
         (alt_current_control_vars s)\<lparr>position_error := 0, integral := 0\<rparr>\<rparr>"

section \<open>The control step\<close>

text \<open>
  \<open>init_pid\<close> zeroes six fields of both "previous" snapshots (not the time stamp),
  computes the conversion factor and the two bounds, and selects the tracking gains by a
  call of \<open>change_stabilization_mode\<close>, whose return value it ignores. The macros of
  \<open>gimbal.h\<close> are its first three arguments. Opening the log file has no effect on the
  statics.
\<close>

definition init_pid ::
    "real \<Rightarrow> real \<Rightarrow> real \<Rightarrow> gain_mutexes \<Rightarrow> pid_statics \<Rightarrow> status outcome" where
  "init_pid STEPS_PER_REVOLUTION MICRO_STEP_FACTOR GEARBOX_RATIO m s =
     (let spd = STEPS_PER_REVOLUTION * MICRO_STEP_FACTOR * GEARBOX_RATIO / 360;
          s1 = s\<lparr>az_prev_control_vars := (az_prev_control_vars s)
                     \<lparr>current_position := 0, target_position := 0, position_error := 0,
                      derivative := 0, integral := 0, pid_output := 0\<rparr>,
                  alt_prev_control_vars := (alt_prev_control_vars s)
                     \<lparr>current_position := 0, target_position := 0, position_error := 0,
                      derivative := 0, integral := 0, pid_output := 0\<rparr>,
                  step_per_deg := spd,
                  max_motor_ang := 35 / spd,
                  max_change_rate := 5 / spd\<rparr>
      in case change_stabilization_mode 0 m s1 of
           Returned r m' s' \<Rightarrow> Returned SUCCESS m' s'
         | Blocked m' s' \<Rightarrow> Blocked m' s')"

text \<open>
  What one call of \<open>pid_update\<close> reads from outside: the attitude passed in, the two
  angles delivered by \<open>get_tracking_angles\<close>, and the clock, read once inside the
  first-iteration block and once after it.
\<close>

record pid_io =
  cur_att :: telescope_att_t
  track_az :: real
  track_alt :: real
  time_first :: real
  time_now :: real

text \<open>The arguments of the one \<open>logging_csv\<close> call of a step, in order.\<close>

record pid_log_row =
  log_current_position :: real
  log_position_error :: real
  log_target_position :: real
  log_proportional :: real
  log_integral :: real
  log_derivative :: real
  log_pid_output :: real
  log_threshold :: int
  log_mot_az :: int
  log_mot_alt :: int

text \<open>
  \<open>motor_control_step\<close> writes four fields of \<open>*current_vars\<close>. Its arguments are the
  gain set, the static \<open>stabilization_timestep\<close> that it reads, and the two snapshots; the
  value it returns in C is the \<open>pid_output\<close> of the result.
\<close>

definition motor_control_step ::
    "pid_values_t \<Rightarrow> real \<Rightarrow> control_variables_t \<Rightarrow> control_variables_t
       \<Rightarrow> control_variables_t" where
  "motor_control_step current_pid_values timestep prev_vars current_vars =
     (let e = target_position current_vars - current_position current_vars;
          i = integral prev_vars + e * timestep;
          d = (e - position_error prev_vars) / timestep
      in current_vars\<lparr>position_error := e, integral := i, derivative := d,
           pid_output := kp current_pid_values * e + ki current_pid_values * i
                           + kd current_pid_values * d\<rparr>)"

text \<open>
  \<open>lround\<close> rounds to the nearest integer, halfway cases away from zero. The results
  here are far inside the range of \<open>long\<close>.
\<close>

definition lround :: "real \<Rightarrow> int" where
  "lround v = (if 0 \<le> v then \<lfloor>v + 1 / 2\<rfloor> else - \<lfloor>- v + 1 / 2\<rfloor>)"

text \<open>
  The three clamps, each written once in the shape that the source repeats for the two
  axes. In \<open>anti_windup\<close> the bound is \<open>max_motor_ang / gain\<close>. For a gain of 0 the C
  quotient is \<open>+inf\<close> (or NaN when \<open>max_motor_ang\<close> is 0 as well), no finite integral is
  above it or below its negation, and the integral is left alone; HOL's \<open>x / 0 = 0\<close>
  would clamp it to 0 instead, so that case is a branch of its own. It is exact for
  \<open>max_motor_ang \<ge> 0\<close>, which \<open>init_pid\<close> gives for a positive conversion factor.
\<close>

definition anti_windup :: "real \<Rightarrow> real \<Rightarrow> real \<Rightarrow> real" where
  "anti_windup max_ang gain i =
     (if gain = 0 then i
      else if i > max_ang / gain then max_ang / gain
      else if i < - max_ang / gain then - max_ang / gain
      else i)"

definition rate_limit :: "real \<Rightarrow> real \<Rightarrow> real \<Rightarrow> real" where
  "rate_limit max_rate prev_out out =
     (if \<bar>out - prev_out\<bar> > max_rate then
        (if out > prev_out then prev_out + max_rate else prev_out - max_rate)
      else out)"

definition saturation :: "real \<Rightarrow> real \<Rightarrow> real" where
  "saturation max_ang out =
     (if out > max_ang then max_ang else if out < - max_ang then - max_ang else out)"

definition saturation_code :: "real \<Rightarrow> real \<Rightarrow> int" where
  "saturation_code max_ang out =
     (if out > max_ang then 1 else if out < - max_ang then 2 else 0)"

text \<open>The stages of \<open>pid_update\<close>, in the order of the source.\<close>

definition pid_read_inputs :: "pid_io \<Rightarrow> pid_statics \<Rightarrow> pid_statics" where
  "pid_read_inputs io s =
     s\<lparr>az_current_control_vars := (az_current_control_vars s)
          \<lparr>current_position := att_az (cur_att io), target_position := track_az io\<rparr>,
       alt_current_control_vars := (alt_current_control_vars s)
          \<lparr>current_position := att_alt (cur_att io), target_position := track_alt io\<rparr>\<rparr>"

definition pid_first_iteration :: "pid_io \<Rightarrow> pid_statics \<Rightarrow> pid_statics" where
  "pid_first_iteration io s =
     (if first_iteration s then
        s\<lparr>sim_start := time_first io,
          az_prev_control_vars := (az_prev_control_vars s)
            \<lparr>time_in_seconds := time_first io, position_error := 0\<rparr>,
          alt_prev_control_vars := (alt_prev_control_vars s)
            \<lparr>time_in_seconds := time_first io, position_error := 0\<rparr>,
          first_iteration := False\<rparr>
      else s)"

definition pid_stamp :: "pid_io \<Rightarrow> pid_statics \<Rightarrow> pid_statics" where
  "pid_stamp io s =
     s\<lparr>sim_time := time_now io,
       az_current_control_vars := (az_current_control_vars s)
          \<lparr>time_in_seconds := time_now io - sim_start s\<rparr>,
       alt_current_control_vars := (alt_current_control_vars s)
          \<lparr>time_in_seconds := time_now io - sim_start s\<rparr>\<rparr>"

definition pid_main :: "pid_statics \<Rightarrow> pid_statics" where
  "pid_main s =
     s\<lparr>az_current_control_vars :=
         motor_control_step (current_az_pid_values s) (stabilization_timestep s)
           (az_prev_control_vars s) (az_current_control_vars s),
       alt_current_control_vars :=
         motor_control_step (current_alt_pid_values s) (stabilization_timestep s)
           (alt_prev_control_vars s) (alt_current_control_vars s)\<rparr>"

text \<open>Both blocks of the source take the bound from \<open>current_az_pid_values.ki\<close>.\<close>

definition pid_anti_windup :: "pid_statics \<Rightarrow> pid_statics" where
  "pid_anti_windup s =
     s\<lparr>az_current_control_vars := (az_current_control_vars s)
          \<lparr>integral := anti_windup (max_motor_ang s) (ki (current_az_pid_values s))
                          (integral (az_current_control_vars s))\<rparr>,
       alt_current_control_vars := (alt_current_control_vars s)
          \<lparr>integral := anti_windup (max_motor_ang s) (ki (current_az_pid_values s))
                          (integral (alt_current_control_vars s))\<rparr>\<rparr>"

definition pid_rate_limit :: "pid_statics \<Rightarrow> pid_statics" where
  "pid_rate_limit s =
     s\<lparr>az_current_control_vars := (az_current_control_vars s)
          \<lparr>pid_output := rate_limit (max_change_rate s) (pid_output (az_prev_control_vars s))
                            (pid_output (az_current_control_vars s))\<rparr>,
       alt_current_control_vars := (alt_current_control_vars s)
          \<lparr>pid_output := rate_limit (max_change_rate s) (pid_output (alt_prev_control_vars s))
                            (pid_output (alt_current_control_vars s))\<rparr>\<rparr>"

text \<open>Only the azimuth block of the source writes \<open>threshold\<close>.\<close>

definition pid_saturation :: "pid_statics \<Rightarrow> pid_statics" where
  "pid_saturation s =
     s\<lparr>threshold := saturation_code (max_motor_ang s) (pid_output (az_current_control_vars s)),
       az_current_control_vars := (az_current_control_vars s)
          \<lparr>pid_output := saturation (max_motor_ang s)
                            (pid_output (az_current_control_vars s))\<rparr>,
       alt_current_control_vars := (alt_current_control_vars s)
          \<lparr>pid_output := saturation (max_motor_ang s)
                            (pid_output (alt_current_control_vars s))\<rparr>\<rparr>"

definition pid_convert :: "pid_statics \<Rightarrow> motor_step_t" where
  "pid_convert s =
     \<lparr>mot_az = lround (step_per_deg s * pid_output (az_current_control_vars s)),
      mot_alt = lround (step_per_deg s * pid_output (alt_current_control_vars s))\<rparr>"

definition pid_deadband :: "pid_statics \<Rightarrow> pid_statics" where
  "pid_deadband s =
     s\<lparr>az_current_control_vars :=
         (if \<bar>position_error (az_current_control_vars s)\<bar> < 2 / 100
          then (az_current_control_vars s)\<lparr>pid_output := 0\<rparr>
          else az_current_control_vars s),
       alt_current_control_vars :=
         (if \<bar>position_error (alt_current_control_vars s)\<bar> < 2 / 100
          then (alt_current_control_vars s)\<lparr>pid_output := 0\<rparr>
          else alt_current_control_vars s)\<rparr>"

definition pid_log :: "pid_statics \<Rightarrow> motor_step_t \<Rightarrow> pid_log_row" where
  "pid_log s motor_out =
     \<lparr>log_current_position = current_position (az_current_control_vars s),
      log_position_error = position_error (az_current_control_vars s),
      log_target_position = target_position (az_current_control_vars s),
      log_proportional = position_error (az_current_control_vars s) * kp (current_az_pid_values s),
      log_integral = integral (az_current_control_vars s) * ki (current_az_pid_values s),
      log_derivative = derivative (az_current_control_vars s) * kd (current_az_pid_values s),
      log_pid_output = pid_output (az_current_control_vars s),
      log_threshold = threshold s,
      log_mot_az = mot_az motor_out,
      log_mot_alt = mot_alt motor_out\<rparr>"

definition pid_commit :: "pid_statics \<Rightarrow> pid_statics" where
  "pid_commit s =
     s\<lparr>az_prev_control_vars := az_current_control_vars s,
       alt_prev_control_vars := alt_current_control_vars s\<rparr>"

text \<open>The statics as they are after each of the middle stages of one call.\<close>

definition pid_after_main :: "pid_io \<Rightarrow> pid_statics \<Rightarrow> pid_statics" where
  "pid_after_main io s = pid_main (pid_stamp io (pid_first_iteration io (pid_read_inputs io s)))"

definition pid_after_anti_windup :: "pid_io \<Rightarrow> pid_statics \<Rightarrow> pid_statics" where
  "pid_after_anti_windup io s = pid_anti_windup (pid_after_main io s)"

definition pid_after_rate_limit :: "pid_io \<Rightarrow> pid_statics \<Rightarrow> pid_statics" where
  "pid_after_rate_limit io s = pid_rate_limit (pid_after_anti_windup io s)"

definition pid_after_saturation :: "pid_io \<Rightarrow> pid_statics \<Rightarrow> pid_statics" where
  "pid_after_saturation io s = pid_saturation (pid_after_rate_limit io s)"

text \<open>
  \<open>pid_update\<close>: the motor command written through \<open>motor_out\<close>, the row handed to the
  logger, and the statics after the call. The conversion to steps comes before the
  deadband, as in the source.
\<close>

definition pid_update :: "pid_io \<Rightarrow> pid_statics \<Rightarrow> motor_step_t \<times> pid_log_row \<times> pid_statics" where
  "pid_update io s =
     (let s7 = pid_after_saturation io s;
          motor_out = pid_convert s7;
          s8 = pid_deadband s7
      in (motor_out, pid_log s8 motor_out, pid_commit s8))"

text \<open>Successive calls of \<open>pid_update\<close>, one per element of the list.\<close>

fun pid_run :: "pid_io list \<Rightarrow> pid_statics \<Rightarrow> pid_statics" where
  "pid_run [] s = s"
| "pid_run (io # ios) s = pid_run ios (snd (snd (pid_update io s)))"

text \<open>
  The statics once the program has been loaded and \<open>init_pid\<close> has run, for a control
  period of \<open>CONTROL_SYS_WAIT\<close> nanoseconds and the three macros of \<open>gimbal.h\<close>. The
  gain mutexes are unlocked before and after (\<open>init_pid_returns\<close> below).
\<close>

definition pid_fresh :: "real \<Rightarrow> real \<Rightarrow> real \<Rightarrow> real \<Rightarrow> pid_statics" where
  "pid_fresh CONTROL_SYS_WAIT STEPS_PER_REVOLUTION MICRO_STEP_FACTOR GEARBOX_RATIO =
     statics_of (init_pid STEPS_PER_REVOLUTION MICRO_STEP_FACTOR GEARBOX_RATIO
                   gain_mutexes_init (pid_static_init CONTROL_SYS_WAIT))"

text \<open>
  Concrete inputs for the examples below. The configuration has a control period of
  10 ms, 200 full steps per revolution, 16 microsteps and a gear ratio of 39.375, hence
  350 steps per degree, a largest motor angle of 0.1 degrees and a largest change of
  1/70 degree per step. \<open>io_at t az alt\<close> is a call at clock reading \<open>t\<close> with the
  telescope at (0, 0) and the target at (\<open>az\<close>, \<open>alt\<close>).
\<close>

definition example_statics :: pid_statics where
  "example_statics = pid_fresh 10000000 200 16 (315 / 8)"

definition io_at :: "real \<Rightarrow> real \<Rightarrow> real \<Rightarrow> pid_io" where
  "io_at t az alt =
     \<lparr>cur_att = \<lparr>att_az = 0, att_alt = 0\<rparr>, track_az = az, track_alt = alt,
      time_first = t, time_now = t\<rparr>"

text \<open>
  The example configuration after seven calls, 10 ms apart, with the same target.
\<close>

definition after_seven :: "real \<Rightarrow> real \<Rightarrow> pid_statics" where
  "after_seven az alt =
     pid_run [io_at 0 az alt, io_at (1 / 100) az alt, io_at (2 / 100) az alt,
              io_at (3 / 100) az alt, io_at (4 / 100) az alt, io_at (5 / 100) az alt,
              io_at (6 / 100) az alt] example_statics"

section \<open>The mode registry\<close>

text \<open>
  Modelled from the spec: \<open>mode.h\<close>, which declares \<open>enum mode_t\<close> and the name
  \<open>RESET\<close>, is not part of the sources at hand. The spec describes the operating mode as
  an enumerated value, "smallest set {RESET, NORMAL, plus mission-specific phases}";
  \<open>NORMAL\<close> is the enumerator that \<open>init_mode\<close> writes as \<open>normal\<close>, and \<open>PHASE\<close> stands
  for the other enumerators.
\<close>

datatype mode_t = NORMAL | RESET | PHASE nat

record mode_statics =
  mode :: mode_t

text \<open>
  \<open>init_mode\<close> first stores \<open>normal\<close> and then initialises the mutex; \<open>res\<close> is the
  value returned by \<open>pthread_mutex_init\<close>.
\<close>

definition init_mode :: "int \<Rightarrow> status \<times> mode_statics" where
  "init_mode res = (if res \<noteq> 0 then FAILURE else SUCCESS, \<lparr>mode = NORMAL\<rparr>)"

definition set_mode :: "mode_t \<Rightarrow> mode_statics \<Rightarrow> mode_statics" where
  "set_mode ch s = s\<lparr>mode := ch\<rparr>"

definition get_mode :: "mode_statics \<Rightarrow> mode_t" where
  "get_mode s = mode s"

text \<open>
  A sequence of calls made on the registry by its clients, and the values that the
  \<open>get_mode\<close> calls among them return, in order.
\<close>

datatype mode_call = Set_mode mode_t | Get_mode

fun mode_calls :: "mode_call list \<Rightarrow> mode_statics \<Rightarrow> mode_t list" where
  "mode_calls [] s = []"
| "mode_calls (Set_mode ch # cs) s = mode_calls cs (set_mode ch s)"
| "mode_calls (Get_mode # cs) s = get_mode s # mode_calls cs s"

fun is_get :: "mode_call \<Rightarrow> bool" where
  "is_get Get_mode = True"
| "is_get (Set_mode ch) = False"

section \<open>The gyroscope poller\<close>

subsection \<open>The poller thread\<close>

text \<open>
  \<open>thread_func\<close> is in one of two places: blocked in \<open>pthread_cond_wait\<close> (\<open>Idle\<close>), or
  inside the body of \<open>while(get_mode() != RESET)\<close> (\<open>Active\<close>). When the start signal
  wakes it, and again after every cycle, the next thing it does is to evaluate the
  condition of that loop: it runs \<open>active_m\<close> if the mode is not \<open>RESET\<close>, and goes back
  to \<open>pthread_cond_wait\<close> otherwise.
\<close>

datatype thread_place = Idle | Active

definition thread_func_next :: "mode_statics \<Rightarrow> thread_place \<Rightarrow> thread_place" where
  "thread_func_next m place = (if get_mode m \<noteq> RESET then Active else Idle)"

subsection \<open>Shared sensor readings\<close>

type_synonym u8 = "8 word"

record gyro_t =
  gyro_x :: real
  gyro_y :: real
  gyro_z :: real
  out_of_date :: u8

text \<open>
  Modelled from the spec: \<open>sensors.c\<close>, which holds the protected gyroscope reading and
  defines \<open>set_gyro\<close>, \<open>set_gyro_temp\<close> and \<open>gyro_out_of_date\<close>, is not part of the sources
  at hand. By the spec, publishing "overwrite[s] all three axis fields, clear[s]
  out-of-date"; a bad quality byte "sets the shared reading's out-of-date flag (previous
  rates preserved)"; and the temperature "is published through a separate accessor",
  "without setting out-of-date". \<open>sensors.h\<close> says the same of the flag: 0 for the latest
  data, 1 after an error, the struct then holding the latest valid data.
\<close>

record sensors_statics =
  gyro_reading :: gyro_t
  gyro_temp :: real

definition set_gyro :: "gyro_t \<Rightarrow> sensors_statics \<Rightarrow> sensors_statics" where
  "set_gyro g sh =
     sh\<lparr>gyro_reading := \<lparr>gyro_x = gyro_x g, gyro_y = gyro_y g, gyro_z = gyro_z g,
                          out_of_date = 0\<rparr>\<rparr>"

definition set_gyro_temp :: "real \<Rightarrow> sensors_statics \<Rightarrow> sensors_statics" where
  "set_gyro_temp t sh = sh\<lparr>gyro_temp := t\<rparr>"

definition gyro_out_of_date :: "sensors_statics \<Rightarrow> sensors_statics" where
  "gyro_out_of_date sh = sh\<lparr>gyro_reading := (gyro_reading sh)\<lparr>out_of_date := 1\<rparr>\<rparr>"

subsection \<open>Decoding a datagram\<close>

text \<open>
  The source fills a byte buffer and reads it through an \<open>int32_t\<close> (or \<open>int16_t\<close>)
  pointer. On the little-endian targets of the flight computer, \<open>buffer[0]\<close> is the least
  significant byte.
\<close>

definition int32_of_buffer :: "u8 \<Rightarrow> u8 \<Rightarrow> u8 \<Rightarrow> u8 \<Rightarrow> 32 word" where
  "int32_of_buffer b0 b1 b2 b3 =
     ucast b0 OR push_bit 8 (ucast b1) OR push_bit 16 (ucast b2) OR push_bit 24 (ucast b3)"

definition int16_of_buffer :: "u8 \<Rightarrow> u8 \<Rightarrow> 16 word" where
  "int16_of_buffer b0 b1 = ucast b0 OR push_bit 8 (ucast b1)"

definition DATAGRAM_IDENTIFIER :: u8 where
  "DATAGRAM_IDENTIFIER = 0x94"

definition DATAGRAM_SIZE :: nat where
  "DATAGRAM_SIZE = 27"

text \<open>The body of the decoding loop, up to the cast: the sample of channel \<open>ii\<close>.\<close>

definition sample_of :: "u8 list \<Rightarrow> nat \<Rightarrow> 32 word" where
  "sample_of data ii =
     int32_of_buffer (data ! (3 + 3 * ii)) (data ! (2 + 3 * ii)) (data ! (1 + 3 * ii))
       (if data ! (1 + 3 * ii) AND 0x80 \<noteq> 0 then 0xFF else 0x00)"

definition rate_of :: "u8 list \<Rightarrow> nat \<Rightarrow> real" where
  "rate_of data ii = real_of_int (sint (sample_of data ii)) / 16384"

definition temp_of :: "u8 list \<Rightarrow> real" where
  "temp_of data = real_of_int (sint (int16_of_buffer (data ! 12) (data ! 11))) / 256"

text \<open>
  The statics of the poller that a cycle writes (the array \<open>rate[3]\<close> as a function of
  the index), and what a cycle hands to the logger.
\<close>

record gyro_statics =
  gyro :: gyro_t
  rate :: "nat \<Rightarrow> real"

datatype gyro_log =
    Warn_read_failed int
  | Warn_incorrect_datagram
  | Warn_bad_quality u8
  | Warn_bad_temp_quality u8
  | Csv real real real "real option"

text \<open>
  One cycle, from the point where the transport has answered. \<open>ret\<close> is the status of the
  \<open>FT_Read\<close> of the datagram (\<open>FT_OK\<close> is 0) and \<open>data\<close> the 27 bytes of the array after it;
  the trigger pulse, the search for the identifier byte and the wait for the rest of the
  datagram come before and touch neither the poller's decoded values nor the shared
  reading. The temperature handed to the logger is \<open>None\<close> where the source leaves it NAN.
\<close>

definition active_m ::
    "int \<Rightarrow> u8 list \<Rightarrow> gyro_statics \<times> sensors_statics
       \<Rightarrow> gyro_log list \<times> gyro_statics \<times> sensors_statics" where
  "active_m ret data st =
     (let g = fst st; sh = snd st in
      if ret \<noteq> 0 then ([Warn_read_failed ret], g, sh)
      else if data ! (DATAGRAM_SIZE - 2) \<noteq> 0x0D \<or> data ! (DATAGRAM_SIZE - 1) \<noteq> 0x0A
        then ([Warn_incorrect_datagram], g, sh)
      else if data ! 10 \<noteq> 0 then ([Warn_bad_quality (data ! 10)], g, gyro_out_of_date sh)
      else
        let rate' = fold (\<lambda>ii r. r(ii := rate_of data ii)) [0..<3] (rate g);
            gyro' = (gyro g)\<lparr>gyro_x := rate' 0, gyro_y := rate' 1, gyro_z := rate' 2\<rparr>;
            g' = g\<lparr>gyro := gyro', rate := rate'\<rparr>;
            sh' = set_gyro gyro' sh
        in if data ! 17 = 0
           then ([Csv (gyro_x gyro') (gyro_y gyro') (gyro_z gyro') (Some (temp_of data))],
                 g', set_gyro_temp (temp_of data) sh')
           else ([Warn_bad_temp_quality (data ! 17),
                  Csv (gyro_x gyro') (gyro_y gyro') (gyro_z gyro') None],
                 g', sh'))"

text \<open>
  The encoding that the decoder is checked against follows the spec's words, not the
  source: a signed 24-bit sample is stored in the three bytes of its channel, most
  significant byte first, at offsets \<open>1 + 3 * ii\<close>, \<open>2 + 3 * ii\<close> and \<open>3 + 3 * ii\<close>.
\<close>

definition spec_encode_sample :: "24 word \<Rightarrow> nat \<Rightarrow> u8 list \<Rightarrow> u8 list" where
  "spec_encode_sample v ii data =
     data[1 + 3 * ii := ucast (drop_bit 16 v),
          2 + 3 * ii := ucast (drop_bit 8 v),
          3 + 3 * ii := ucast v]"

section \<open>Bit-level facts for the decoder\<close>

lemma bit_128_int: "bit (128 :: int) n \<longleftrightarrow> n = 7"
proof -
  have "(128 :: int) = 2 ^ 7" by simp
  then show ?thesis by (simp only: bit_exp_iff) auto
qed

lemma bit_255_int: "bit (255 :: int) n \<longleftrightarrow> n < 8"
proof -
  have "(255 :: int) = mask 8" by (simp add: mask_eq_exp_minus_1)
  then show ?thesis by (simp only: bit_mask_iff) auto
qed

lemma top_byte_sign:
  "((ucast (drop_bit 16 (v :: 24 word)) :: u8) AND 0x80 \<noteq> 0) = bit v 23"
proof -
  have "(ucast (drop_bit 16 v) :: u8) AND 0x80 = (if bit v 23 then 0x80 else 0)"
    by (rule bit_word_eqI) (auto simp add: bit_simps bit_128_int)
  then show ?thesis by simp
qed

lemma int32_of_buffer_sign_extends:
  "int32_of_buffer (ucast v) (ucast (drop_bit 8 v)) (ucast (drop_bit 16 v))
     (if (ucast (drop_bit 16 v) :: u8) AND 0x80 \<noteq> 0 then 0xFF else 0x00)
   = scast (v :: 24 word)"
  unfolding top_byte_sign
proof (rule bit_word_eqI)
  fix n :: nat
  assume "n < LENGTH(32)"
  then have n: "n < 32" by simp
  let ?w = "int32_of_buffer (ucast v) (ucast (drop_bit 8 v)) (ucast (drop_bit 16 v))
              (if bit v 23 then 0xFF else 0x00)"
  consider "n < 8" | "8 \<le> n" "n < 16" | "16 \<le> n" "n < 23" | "n = 23" | "24 \<le> n"
    by linarith
  then show "bit ?w n = bit (scast v :: 32 word) n"
  proof cases
    case 1
    then show ?thesis
      by (auto simp add: int32_of_buffer_def bit_simps bit_255_int min_def)
  next
    case 2
    then show ?thesis
      by (auto simp add: int32_of_buffer_def bit_simps bit_255_int min_def)
  next
    case 3
    then show ?thesis
      by (auto simp add: int32_of_buffer_def bit_simps bit_255_int min_def)
  next
    case 4
    then show ?thesis
      by (auto simp add: int32_of_buffer_def bit_simps bit_255_int min_def)
  next
    case 5
    then have "\<not> bit v n" by (auto dest: bit_imp_le_length)
    with 5 n show ?thesis
      by (auto simp add: int32_of_buffer_def bit_simps bit_255_int min_def)
  qed
qed

lemma sample_of_spec_encode:
  assumes "length data = 27" and "ii < 3"
  shows "sample_of (spec_encode_sample v ii data) ii = scast v"
proof -
  have "ii = 0 \<or> ii = 1 \<or> ii = 2" using assms(2) by linarith
  then show ?thesis
    using assms(1)
    by (auto simp add: sample_of_def spec_encode_sample_def int32_of_buffer_sign_extends
             split del: if_split)
qed

lemma sint_scast_24_32: "sint (scast (v :: 24 word) :: 32 word) = sint v"
  by (simp add: sint_up_scast is_up)

lemma sint_word24_of_int:
  "- (2 ^ 23) \<le> n \<Longrightarrow> n < 2 ^ 23 \<Longrightarrow> sint (word_of_int n :: 24 word) = n"
  by (simp add: sint_sbintrunc' signed_take_bit_int_eq_self)

section \<open>The sample round trip\<close>

text \<open>
  C6. For every signed 24-bit integer \<open>n\<close>, every channel \<open>ii\<close> of the three and every
  27-byte datagram: after the sample \<open>n\<close> is stored in the channel's three bytes, most
  significant byte first, the poller's reassembly and sign extension give the 32-bit
  signed integer \<open>n\<close> again, and the published rate is \<open>n / 16384\<close>.
\<close>

theorem sample_of_inverts_spec_encode:
  assumes "- (2 ^ 23) \<le> n" and "n < 2 ^ 23"
    and "length data = DATAGRAM_SIZE" and "ii < 3"
  shows "sint (sample_of (spec_encode_sample (word_of_int n) ii data) ii) = n
         \<and> rate_of (spec_encode_sample (word_of_int n) ii data) ii = real_of_int n / 16384"
proof -
  have len: "length data = 27" using assms(3) by (simp add: DATAGRAM_SIZE_def)
  have "sint (sample_of (spec_encode_sample (word_of_int n) ii data) ii)
          = sint (word_of_int n :: 24 word)"
    by (simp only: sample_of_spec_encode [OF len assms(4)] sint_scast_24_32)
  also have "\<dots> = n" by (rule sint_word24_of_int [OF assms(1) assms(2)])
  finally have "sint (sample_of (spec_encode_sample (word_of_int n) ii data) ii) = n" .
  then show ?thesis by (simp add: rate_of_def)
qed

theorem sample_of_inverts_spec_encode_witness:
  "- (2 ^ 23) \<le> (- 5 :: int) \<and> (- 5 :: int) < 2 ^ 23
   \<and> length (replicate 27 (0 :: u8)) = DATAGRAM_SIZE \<and> (1 :: nat) < 3
   \<and> sint (sample_of (spec_encode_sample (word_of_int (- 5)) 1 (replicate 27 0)) 1) = - 5
   \<and> rate_of (spec_encode_sample (word_of_int (- 5)) 1 (replicate 27 0)) 1
       = real_of_int (- 5) / 16384"
  using sample_of_inverts_spec_encode [of "- 5" "replicate 27 0" 1]
  by (simp add: DATAGRAM_SIZE_def)

section \<open>Validation of a datagram\<close>

text \<open>
  C8. When the two terminator bytes of the datagram are not carriage return followed by
  line feed, the cycle changes nothing, whatever the status of the read: the poller's
  statics and the shared reading with its fields and its out-of-date flag are what they
  were, so a flag that was 1 stays 1 and a flag that was 0 stays 0.
\<close>

theorem active_m_bad_terminator_no_change:
  assumes "length data = DATAGRAM_SIZE"
    and "data ! 25 \<noteq> 0x0D \<or> data ! 26 \<noteq> 0x0A"
  shows "snd (active_m ret data (g, sh)) = (g, sh)
         \<and> gyro_reading (snd (snd (active_m ret data (g, sh)))) = gyro_reading sh
         \<and> out_of_date (gyro_reading (snd (snd (active_m ret data (g, sh)))))
             = out_of_date (gyro_reading sh)
         \<and> gyro_temp (snd (snd (active_m ret data (g, sh)))) = gyro_temp sh"
  using assms(2) by (auto simp add: active_m_def DATAGRAM_SIZE_def Let_def)

theorem active_m_bad_terminator_no_change_witness:
  "length (replicate 25 0 @ [0x0D, 0x00 :: u8]) = DATAGRAM_SIZE
   \<and> (replicate 25 0 @ [0x0D, 0x00 :: u8]) ! 25 = 0x0D
   \<and> (replicate 25 0 @ [0x0D, 0x00 :: u8]) ! 26 = 0x00
   \<and> out_of_date (gyro_reading (snd (snd (active_m 0 (replicate 25 0 @ [0x0D, 0x00])
        (\<lparr>gyro = \<lparr>gyro_x = 0, gyro_y = 0, gyro_z = 0, out_of_date = 0\<rparr>, rate = (\<lambda>ii. 0)\<rparr>,
         \<lparr>gyro_reading = \<lparr>gyro_x = 1, gyro_y = 2, gyro_z = 3, out_of_date = 1\<rparr>,
          gyro_temp = 20\<rparr>))))) = 1"
  using active_m_bad_terminator_no_change [of "replicate 25 0 @ [0x0D, 0x00]" 0
      "\<lparr>gyro = \<lparr>gyro_x = 0, gyro_y = 0, gyro_z = 0, out_of_date = 0\<rparr>, rate = (\<lambda>ii. 0)\<rparr>"
      "\<lparr>gyro_reading = \<lparr>gyro_x = 1, gyro_y = 2, gyro_z = 3, out_of_date = 1\<rparr>,
        gyro_temp = 20\<rparr>"]
  by (simp add: DATAGRAM_SIZE_def nth_append)

text \<open>
  C7. For a datagram that was read and is well framed: when the quality byte of the
  angular rates, \<open>data[10]\<close>, is not zero, the cycle ends before anything is decoded, the
  shared rates and temperature keep their values and the out-of-date flag is set to 1;
  when \<open>data[10]\<close> is zero and only the quality byte of the temperature, \<open>data[17]\<close>, is
  not zero, the three rates are decoded and published, the flag is 0, and the shared
  temperature keeps its value.
\<close>

theorem active_m_quality_bytes:
  assumes "length data = DATAGRAM_SIZE"
    and "data ! 25 = 0x0D" and "data ! 26 = 0x0A"
  shows "(data ! 10 \<noteq> 0 \<longrightarrow>
            fst (snd (active_m 0 data (g, sh))) = g
            \<and> gyro_x (gyro_reading (snd (snd (active_m 0 data (g, sh)))))
                = gyro_x (gyro_reading sh)
            \<and> gyro_y (gyro_reading (snd (snd (active_m 0 data (g, sh)))))
                = gyro_y (gyro_reading sh)
            \<and> gyro_z (gyro_reading (snd (snd (active_m 0 data (g, sh)))))
                = gyro_z (gyro_reading sh)
            \<and> gyro_temp (snd (snd (active_m 0 data (g, sh)))) = gyro_temp sh
            \<and> out_of_date (gyro_reading (snd (snd (active_m 0 data (g, sh))))) = 1)
         \<and> (data ! 10 = 0 \<and> data ! 17 \<noteq> 0 \<longrightarrow>
            gyro_x (gyro_reading (snd (snd (active_m 0 data (g, sh))))) = rate_of data 0
            \<and> gyro_y (gyro_reading (snd (snd (active_m 0 data (g, sh))))) = rate_of data 1
            \<and> gyro_z (gyro_reading (snd (snd (active_m 0 data (g, sh))))) = rate_of data 2
            \<and> gyro_temp (snd (snd (active_m 0 data (g, sh)))) = gyro_temp sh
            \<and> out_of_date (gyro_reading (snd (snd (active_m 0 data (g, sh))))) = 0
            \<and> fst (active_m 0 data (g, sh))
                = [Warn_bad_temp_quality (data ! 17),
                   Csv (rate_of data 0) (rate_of data 1) (rate_of data 2) None])"
proof -
  have up: "[0..<3] = [0, 1, 2]" by (simp add: upt_rec)
  show ?thesis
    using assms(2) assms(3)
    by (simp add: active_m_def DATAGRAM_SIZE_def Let_def up gyro_out_of_date_def
          set_gyro_def set_gyro_temp_def)
qed

theorem active_m_quality_bytes_witness:
  "length (replicate 10 0 @ [0x01 :: u8] @ replicate 14 0 @ [0x0D, 0x0A]) = DATAGRAM_SIZE
   \<and> (replicate 10 0 @ [0x01 :: u8] @ replicate 14 0 @ [0x0D, 0x0A]) ! 25 = 0x0D
   \<and> (replicate 10 0 @ [0x01 :: u8] @ replicate 14 0 @ [0x0D, 0x0A]) ! 26 = 0x0A
   \<and> (replicate 10 0 @ [0x01 :: u8] @ replicate 14 0 @ [0x0D, 0x0A]) ! 10 \<noteq> 0
   \<and> out_of_date (gyro_reading (snd (snd (active_m 0
        (replicate 10 0 @ [0x01] @ replicate 14 0 @ [0x0D, 0x0A])
        (\<lparr>gyro = \<lparr>gyro_x = 0, gyro_y = 0, gyro_z = 0, out_of_date = 0\<rparr>, rate = (\<lambda>ii. 0)\<rparr>,
         \<lparr>gyro_reading = \<lparr>gyro_x = 1, gyro_y = 2, gyro_z = 3, out_of_date = 0\<rparr>,
          gyro_temp = 20\<rparr>))))) = 1
   \<and> gyro_x (gyro_reading (snd (snd (active_m 0
        (replicate 10 0 @ [0x01] @ replicate 14 0 @ [0x0D, 0x0A])
        (\<lparr>gyro = \<lparr>gyro_x = 0, gyro_y = 0, gyro_z = 0, out_of_date = 0\<rparr>, rate = (\<lambda>ii. 0)\<rparr>,
         \<lparr>gyro_reading = \<lparr>gyro_x = 1, gyro_y = 2, gyro_z = 3, out_of_date = 0\<rparr>,
          gyro_temp = 20\<rparr>))))) = 1
   \<and> length (replicate 17 0 @ [0x01 :: u8] @ replicate 7 0 @ [0x0D, 0x0A]) = DATAGRAM_SIZE
   \<and> (replicate 17 0 @ [0x01 :: u8] @ replicate 7 0 @ [0x0D, 0x0A]) ! 25 = 0x0D
   \<and> (replicate 17 0 @ [0x01 :: u8] @ replicate 7 0 @ [0x0D, 0x0A]) ! 26 = 0x0A
   \<and> (replicate 17 0 @ [0x01 :: u8] @ replicate 7 0 @ [0x0D, 0x0A]) ! 10 = 0
   \<and> (replicate 17 0 @ [0x01 :: u8] @ replicate 7 0 @ [0x0D, 0x0A]) ! 17 \<noteq> 0
   \<and> out_of_date (gyro_reading (snd (snd (active_m 0
        (replicate 17 0 @ [0x01] @ replicate 7 0 @ [0x0D, 0x0A])
        (\<lparr>gyro = \<lparr>gyro_x = 0, gyro_y = 0, gyro_z = 0, out_of_date = 0\<rparr>, rate = (\<lambda>ii. 0)\<rparr>,
         \<lparr>gyro_reading = \<lparr>gyro_x = 1, gyro_y = 2, gyro_z = 3, out_of_date = 1\<rparr>,
          gyro_temp = 20\<rparr>))))) = 0
   \<and> gyro_temp (snd (snd (active_m 0
        (replicate 17 0 @ [0x01] @ replicate 7 0 @ [0x0D, 0x0A])
        (\<lparr>gyro = \<lparr>gyro_x = 0, gyro_y = 0, gyro_z = 0, out_of_date = 0\<rparr>, rate = (\<lambda>ii. 0)\<rparr>,
         \<lparr>gyro_reading = \<lparr>gyro_x = 1, gyro_y = 2, gyro_z = 3, out_of_date = 1\<rparr>,
          gyro_temp = 20\<rparr>)))) = 20"
  using
    active_m_quality_bytes [of "replicate 10 0 @ [0x01] @ replicate 14 0 @ [0x0D, 0x0A]"
      "\<lparr>gyro = \<lparr>gyro_x = 0, gyro_y = 0, gyro_z = 0, out_of_date = 0\<rparr>, rate = (\<lambda>ii. 0)\<rparr>"
      "\<lparr>gyro_reading = \<lparr>gyro_x = 1, gyro_y = 2, gyro_z = 3, out_of_date = 0\<rparr>,
        gyro_temp = 20\<rparr>"]
    active_m_quality_bytes [of "replicate 17 0 @ [0x01] @ replicate 7 0 @ [0x0D, 0x0A]"
      "\<lparr>gyro = \<lparr>gyro_x = 0, gyro_y = 0, gyro_z = 0, out_of_date = 0\<rparr>, rate = (\<lambda>ii. 0)\<rparr>"
      "\<lparr>gyro_reading = \<lparr>gyro_x = 1, gyro_y = 2, gyro_z = 3, out_of_date = 1\<rparr>,
        gyro_temp = 20\<rparr>"]
  by (simp add: DATAGRAM_SIZE_def nth_append)

section \<open>The mode after initialisation\<close>

lemma mode_calls_before_first_set:
  "mode s = NORMAL \<Longrightarrow>
     mode_calls (takeWhile is_get cs) s = replicate (length (takeWhile is_get cs)) NORMAL"
proof (induction cs)
  case Nil
  then show ?case by simp
next
  case (Cons c cs)
  then show ?case by (cases c) (simp_all add: get_mode_def)
qed

text \<open>
  C10. When \<open>init_mode\<close> returns \<open>SUCCESS\<close>, the registry holds \<open>NORMAL\<close>, which is not
  \<open>RESET\<close>; \<open>get_mode\<close> returns \<open>NORMAL\<close>, and in any sequence of calls on the registry
  every \<open>get_mode\<close> before the first \<open>set_mode\<close> returns \<open>NORMAL\<close>. A poller thread woken
  from \<open>Idle\<close> in that state finds the condition of its sampling loop true and is
  \<open>Active\<close>.
\<close>

theorem init_mode_normal:
  assumes "init_mode res = (SUCCESS, m)"
  shows "mode m = NORMAL \<and> mode m \<noteq> RESET \<and> get_mode m = NORMAL
         \<and> mode_calls (takeWhile is_get cs) m
             = replicate (length (takeWhile is_get cs)) NORMAL
         \<and> thread_func_next m Idle = Active"
proof -
  have m: "mode m = NORMAL" using assms by (auto simp add: init_mode_def)
  then show ?thesis
    by (simp add: get_mode_def thread_func_next_def mode_calls_before_first_set)
qed

theorem init_mode_normal_witness:
  "init_mode 0 = (SUCCESS, \<lparr>mode = NORMAL\<rparr>)
   \<and> get_mode \<lparr>mode = NORMAL\<rparr> = NORMAL
   \<and> mode_calls (takeWhile is_get [Get_mode, Get_mode, Set_mode RESET, Get_mode])
        \<lparr>mode = NORMAL\<rparr> = [NORMAL, NORMAL]
   \<and> thread_func_next \<lparr>mode = NORMAL\<rparr> Idle = Active"
  using init_mode_normal [of 0 "\<lparr>mode = NORMAL\<rparr>"
      "[Get_mode, Get_mode, Set_mode RESET, Get_mode]"]
  by (simp add: init_mode_def)

section \<open>Regime transitions\<close>

text \<open>
  With both gain mutexes unlocked, whatever the statics hold, also after a transient
  override by \<open>change_pid_values\<close>: \<open>change_stabilization_mode\<close> returns 0, leaves both
  mutexes unlocked and makes the active gain set of each axis equal to that axis's stored
  tracking set (argument 0) or stored stabilization set (argument 1); a second call with
  the same argument changes nothing; and stabilization followed by tracking leaves
  exactly the stored tracking gains active.
\<close>

lemma change_stabilization_mode_unlocked:
  "change_stabilization_mode 0 gain_mutexes_init s =
     Returned 0 gain_mutexes_init
       (s\<lparr>current_az_pid_values := track_az_pid_values s,
          current_alt_pid_values := track_alt_pid_values s\<rparr>)"
  "change_stabilization_mode 1 gain_mutexes_init s =
     Returned 0 gain_mutexes_init
       (s\<lparr>current_az_pid_values := stab_az_pid_values s,
          current_alt_pid_values := stab_alt_pid_values s\<rparr>)"
  by (simp_all add: change_stabilization_mode_def gain_mutexes_init_def Let_def)

lemma change_stabilization_mode_unlocked_restores:
  "current_az_pid_values (statics_of (change_stabilization_mode 0 gain_mutexes_init
      (statics_of (change_pid_values a p i d gain_mutexes_init s)))) = track_az_pid_values s"
  "current_alt_pid_values (statics_of (change_stabilization_mode 0 gain_mutexes_init
      (statics_of (change_pid_values a p i d gain_mutexes_init s)))) = track_alt_pid_values s"
  "change_stabilization_mode 0 gain_mutexes_init
      (statics_of (change_stabilization_mode 0 gain_mutexes_init s))
     = change_stabilization_mode 0 gain_mutexes_init s"
  "change_stabilization_mode 1 gain_mutexes_init
      (statics_of (change_stabilization_mode 1 gain_mutexes_init s))
     = change_stabilization_mode 1 gain_mutexes_init s"
  "current_az_pid_values (statics_of (change_stabilization_mode 0 gain_mutexes_init
      (statics_of (change_stabilization_mode 1 gain_mutexes_init s)))) = track_az_pid_values s"
  "current_alt_pid_values (statics_of (change_stabilization_mode 0 gain_mutexes_init
      (statics_of (change_stabilization_mode 1 gain_mutexes_init s)))) = track_alt_pid_values s"
  by (simp_all add: change_stabilization_mode_def change_pid_values_def
        gain_mutexes_init_def Let_def)

text \<open>
  C9. The claim: in every state of the gain store, also after a transient override, the
  regime transition makes the active gain set of each axis equal to that axis's stored
  set of the chosen regime. The gain store reaches a state where it does not. In the
  example configuration, after the altitude gains have been overridden to (5, 5, 5), a
  persistent update for the altitude motor with the mode id 3 is rejected with 1 and no
  change of the gains, but returns with the altitude mutex locked. The next
  \<open>change_stabilization_mode\<close>, with either argument, copies the azimuth set and then
  blocks on the altitude mutex: it never returns, and the active altitude set is still the
  override, which is neither the stored tracking set nor the stored stabilization set.
\<close>

theorem change_stabilization_mode_blocks_after_rejected_update:
  "change_pid_values 2 5 5 5 gain_mutexes_init example_statics
     = Returned 0 gain_mutexes_init
         (example_statics\<lparr>current_alt_pid_values := \<lparr>kp = 5, ki = 5, kd = 5\<rparr>\<rparr>)
   \<and> change_mode_pid_values 2 3 1 1 1 gain_mutexes_init
        (example_statics\<lparr>current_alt_pid_values := \<lparr>kp = 5, ki = 5, kd = 5\<rparr>\<rparr>)
     = Returned 1 \<lparr>az_pid_values_mutex = Unlocked, alt_pid_values_mutex = Locked\<rparr>
         (example_statics\<lparr>current_alt_pid_values := \<lparr>kp = 5, ki = 5, kd = 5\<rparr>\<rparr>)
   \<and> result_of (change_stabilization_mode 0
        \<lparr>az_pid_values_mutex = Unlocked, alt_pid_values_mutex = Locked\<rparr>
        (example_statics\<lparr>current_alt_pid_values := \<lparr>kp = 5, ki = 5, kd = 5\<rparr>\<rparr>)) = None
   \<and> current_alt_pid_values (statics_of (change_stabilization_mode 0
        \<lparr>az_pid_values_mutex = Unlocked, alt_pid_values_mutex = Locked\<rparr>
        (example_statics\<lparr>current_alt_pid_values := \<lparr>kp = 5, ki = 5, kd = 5\<rparr>\<rparr>)))
       = \<lparr>kp = 5, ki = 5, kd = 5\<rparr>
   \<and> track_alt_pid_values (statics_of (change_stabilization_mode 0
        \<lparr>az_pid_values_mutex = Unlocked, alt_pid_values_mutex = Locked\<rparr>
        (example_statics\<lparr>current_alt_pid_values := \<lparr>kp = 5, ki = 5, kd = 5\<rparr>\<rparr>)))
       = \<lparr>kp = 1, ki = 2 / 10, kd = 0\<rparr>
   \<and> result_of (change_stabilization_mode 1
        \<lparr>az_pid_values_mutex = Unlocked, alt_pid_values_mutex = Locked\<rparr>
        (example_statics\<lparr>current_alt_pid_values := \<lparr>kp = 5, ki = 5, kd = 5\<rparr>\<rparr>)) = None
   \<and> current_az_pid_values (statics_of (change_stabilization_mode 1
        \<lparr>az_pid_values_mutex = Unlocked, alt_pid_values_mutex = Locked\<rparr>
        (example_statics\<lparr>current_alt_pid_values := \<lparr>kp = 5, ki = 5, kd = 5\<rparr>\<rparr>)))
       = \<lparr>kp = 673 / 10000, ki = 5 / 100, kd = 152 / 10000\<rparr>
   \<and> current_alt_pid_values (statics_of (change_stabilization_mode 1
        \<lparr>az_pid_values_mutex = Unlocked, alt_pid_values_mutex = Locked\<rparr>
        (example_statics\<lparr>current_alt_pid_values := \<lparr>kp = 5, ki = 5, kd = 5\<rparr>\<rparr>)))
       = \<lparr>kp = 5, ki = 5, kd = 5\<rparr>
   \<and> stab_alt_pid_values (statics_of (change_stabilization_mode 1
        \<lparr>az_pid_values_mutex = Unlocked, alt_pid_values_mutex = Locked\<rparr>
        (example_statics\<lparr>current_alt_pid_values := \<lparr>kp = 5, ki = 5, kd = 5\<rparr>\<rparr>)))
       = \<lparr>kp = 673 / 10000, ki = 5 / 100, kd = 152 / 10000\<rparr>"
  by (simp add: change_pid_values_def change_mode_pid_values_def change_stabilization_mode_def
        gain_mutexes_init_def example_statics_def pid_fresh_def init_pid_def
        pid_static_init_def zero_control_vars_def zero_pid_values_def Let_def)

section \<open>Facts about the stages of the control step\<close>

lemmas pid_stage_defs =
  pid_after_saturation_def pid_after_rate_limit_def pid_after_anti_windup_def
  pid_after_main_def pid_saturation_def pid_rate_limit_def pid_anti_windup_def pid_main_def
  pid_stamp_def pid_first_iteration_def pid_read_inputs_def motor_control_step_def

lemmas pid_update_defs =
  pid_update_def pid_convert_def pid_deadband_def pid_log_def pid_commit_def

lemmas pid_init_defs =
  pid_fresh_def init_pid_def pid_static_init_def change_stabilization_mode_def
  change_pid_values_def gain_mutexes_init_def zero_control_vars_def zero_pid_values_def

lemmas clamp_defs = anti_windup_def rate_limit_def saturation_def saturation_code_def

lemma anti_windup_bound: "0 \<le> m \<Longrightarrow> \<bar>k * anti_windup m k i\<bar> \<le> m"
proof -
  assume m: "0 \<le> m"
  consider "k = 0" | "0 < k" | "k < 0" by linarith
  then show ?thesis
  proof cases
    case 1
    then show ?thesis using m by (simp add: anti_windup_def)
  next
    case 2
    then show ?thesis using m
      by (auto simp add: anti_windup_def abs_le_iff field_simps)
  next
    case 3
    then show ?thesis using m
      by (auto simp add: anti_windup_def abs_le_iff field_simps)
  qed
qed

lemma rate_limit_bound: "0 \<le> m \<Longrightarrow> \<bar>rate_limit m p out - p\<bar> \<le> m"
  by (simp add: rate_limit_def)

lemma saturation_bound: "0 \<le> m \<Longrightarrow> \<bar>saturation m out\<bar> \<le> m"
  by (auto simp add: saturation_def)

lemma lround_of_int: "lround (real_of_int n) = n"
  by (auto simp add: lround_def)

text \<open>
  Started with the gain mutexes unlocked, \<open>init_pid\<close> returns \<open>SUCCESS\<close> and leaves them
  unlocked.
\<close>

lemma init_pid_returns:
  "result_of (init_pid A B C gain_mutexes_init s) = Some SUCCESS"
  "mutexes_of (init_pid A B C gain_mutexes_init s) = gain_mutexes_init"
  by (simp_all add: init_pid_def change_stabilization_mode_unlocked Let_def)

text \<open>The bounds are positive after \<open>init_pid\<close> when the product of the macros is.\<close>

lemma init_pid_bounds:
  assumes "0 < A * B * C"
  shows "0 < step_per_deg (statics_of (init_pid A B C gain_mutexes_init s))"
    and "0 < max_motor_ang (statics_of (init_pid A B C gain_mutexes_init s))"
    and "0 < max_change_rate (statics_of (init_pid A B C gain_mutexes_init s))"
  using assms
  by (simp_all add: init_pid_def change_stabilization_mode_unlocked Let_def)

text \<open>No operation other than \<open>init_pid\<close> writes the bounds or the conversion factor.\<close>

lemma pid_update_keeps_bounds:
  "max_motor_ang (snd (snd (pid_update io s))) = max_motor_ang s"
  "max_change_rate (snd (snd (pid_update io s))) = max_change_rate s"
  "step_per_deg (snd (snd (pid_update io s))) = step_per_deg s"
  by (simp_all add: pid_update_defs pid_stage_defs Let_def)

lemma gain_changes_keep_bounds:
  "max_motor_ang (statics_of (change_pid_values a p i d m s)) = max_motor_ang s"
  "max_change_rate (statics_of (change_pid_values a p i d m s)) = max_change_rate s"
  "max_motor_ang (statics_of (change_mode_pid_values a r p i d m s)) = max_motor_ang s"
  "max_change_rate (statics_of (change_mode_pid_values a r p i d m s)) = max_change_rate s"
  "max_motor_ang (statics_of (change_stabilization_mode on_off m s)) = max_motor_ang s"
  "max_change_rate (statics_of (change_stabilization_mode on_off m s)) = max_change_rate s"
  "max_motor_ang (pid_reset s) = max_motor_ang s"
  "max_change_rate (pid_reset s) = max_change_rate s"
  by (simp_all add: change_pid_values_def change_mode_pid_values_def
        change_stabilization_mode_def pid_reset_def Let_def)

lemma after_saturation_fields:
  "pid_output (az_current_control_vars (pid_after_saturation io s)) =
     saturation (max_motor_ang s)
       (pid_output (az_current_control_vars (pid_after_rate_limit io s)))"
  "pid_output (alt_current_control_vars (pid_after_saturation io s)) =
     saturation (max_motor_ang s)
       (pid_output (alt_current_control_vars (pid_after_rate_limit io s)))"
  "threshold (pid_after_saturation io s) =
     saturation_code (max_motor_ang s)
       (pid_output (az_current_control_vars (pid_after_rate_limit io s)))"
  "max_motor_ang (pid_after_saturation io s) = max_motor_ang s"
  "step_per_deg (pid_after_saturation io s) = step_per_deg s"
  "position_error (az_current_control_vars (pid_after_saturation io s))
     = track_az io - att_az (cur_att io)"
  "position_error (alt_current_control_vars (pid_after_saturation io s))
     = track_alt io - att_alt (cur_att io)"
  by (simp_all add: pid_stage_defs Let_def)

lemma after_anti_windup_fields:
  "pid_output (az_prev_control_vars (pid_after_anti_windup io s))
     = pid_output (az_prev_control_vars s)"
  "pid_output (alt_prev_control_vars (pid_after_anti_windup io s))
     = pid_output (alt_prev_control_vars s)"
  "max_change_rate (pid_after_anti_windup io s) = max_change_rate s"
  "max_motor_ang (pid_after_anti_windup io s) = max_motor_ang s"
  "current_az_pid_values (pid_after_anti_windup io s) = current_az_pid_values s"
  "current_alt_pid_values (pid_after_anti_windup io s) = current_alt_pid_values s"
  by (simp_all add: pid_stage_defs Let_def)

text \<open>
  On the azimuth axis the integral accumulator is within the bound after the
  anti-windup stage, for every gain and every state with a non-negative bound.
\<close>

lemma pid_anti_windup_azimuth_bound:
  assumes "0 \<le> max_motor_ang s"
  shows "\<bar>ki (current_az_pid_values (pid_after_anti_windup io s))
            * integral (az_current_control_vars (pid_after_anti_windup io s))\<bar>
           \<le> max_motor_ang s"
proof -
  have "integral (az_current_control_vars (pid_after_anti_windup io s))
          = anti_windup (max_motor_ang s) (ki (current_az_pid_values s))
              (integral (az_current_control_vars (pid_after_main io s)))"
    by (simp add: pid_stage_defs Let_def)
  then show ?thesis
    using assms by (simp add: after_anti_windup_fields anti_windup_bound)
qed

section \<open>Anti-windup on the altitude axis\<close>

text \<open>
  C1. The claim asks that after the anti-windup stage \<open>|ki * integral| \<le> max_motor_ang\<close>
  on both axes, each with its own active integral gain. The altitude block of the source
  takes its bound from the azimuth gain. In the example configuration, with the tracking
  gains that \<open>init_pid\<close> selects (integral gain 0.01 on azimuth, 0.2 on altitude), the
  first step towards a target 90 degrees above the telescope leaves the altitude
  accumulator at 0.9, so \<open>ki * integral\<close> is 0.18 against a bound of 0.1; the value is
  stored as the previous snapshot at the end of the step.
\<close>

theorem pid_anti_windup_altitude_exceeds_bound:
  "max_motor_ang (pid_after_anti_windup (io_at 0 0 90) example_statics) = 1 / 10
   \<and> ki (current_alt_pid_values (pid_after_anti_windup (io_at 0 0 90) example_statics)) = 2 / 10
   \<and> integral (alt_current_control_vars
        (pid_after_anti_windup (io_at 0 0 90) example_statics)) = 9 / 10
   \<and> \<bar>ki (current_alt_pid_values (pid_after_anti_windup (io_at 0 0 90) example_statics))
        * integral (alt_current_control_vars
            (pid_after_anti_windup (io_at 0 0 90) example_statics))\<bar>
       > max_motor_ang (pid_after_anti_windup (io_at 0 0 90) example_statics)
   \<and> \<bar>ki (current_alt_pid_values (snd (snd (pid_update (io_at 0 0 90) example_statics))))
        * integral (alt_prev_control_vars
            (snd (snd (pid_update (io_at 0 0 90) example_statics))))\<bar>
       > max_motor_ang (snd (snd (pid_update (io_at 0 0 90) example_statics)))"
  by (simp add: io_at_def example_statics_def pid_update_defs pid_stage_defs pid_init_defs
        Let_def clamp_defs)

section \<open>Rate limiting\<close>

text \<open>
  C4. For every call and both axes, when \<open>max_change_rate\<close> is not negative: after the
  rate-limiting stage the output differs from the stored output of the previous step by
  at most \<open>max_change_rate\<close>; and when the output computed by the PID law differed from
  it by more, the limited output is the previous output plus \<open>max_change_rate\<close> if the
  output rose and minus \<open>max_change_rate\<close> if it fell.
\<close>

theorem pid_rate_limit_bounds_change:
  assumes "0 \<le> max_change_rate s"
  shows "\<bar>pid_output (az_current_control_vars (pid_after_rate_limit io s))
            - pid_output (az_prev_control_vars s)\<bar> \<le> max_change_rate s
       \<and> \<bar>pid_output (alt_current_control_vars (pid_after_rate_limit io s))
            - pid_output (alt_prev_control_vars s)\<bar> \<le> max_change_rate s
       \<and> (\<bar>pid_output (az_current_control_vars (pid_after_anti_windup io s))
            - pid_output (az_prev_control_vars s)\<bar> > max_change_rate s \<longrightarrow>
           pid_output (az_current_control_vars (pid_after_rate_limit io s)) =
             (if pid_output (az_current_control_vars (pid_after_anti_windup io s))
                   > pid_output (az_prev_control_vars s)
              then pid_output (az_prev_control_vars s) + max_change_rate s
              else pid_output (az_prev_control_vars s) - max_change_rate s))
       \<and> (\<bar>pid_output (alt_current_control_vars (pid_after_anti_windup io s))
            - pid_output (alt_prev_control_vars s)\<bar> > max_change_rate s \<longrightarrow>
           pid_output (alt_current_control_vars (pid_after_rate_limit io s)) =
             (if pid_output (alt_current_control_vars (pid_after_anti_windup io s))
                   > pid_output (alt_prev_control_vars s)
              then pid_output (alt_prev_control_vars s) + max_change_rate s
              else pid_output (alt_prev_control_vars s) - max_change_rate s))"
proof -
  have az: "pid_output (az_current_control_vars (pid_after_rate_limit io s)) =
      rate_limit (max_change_rate s) (pid_output (az_prev_control_vars s))
        (pid_output (az_current_control_vars (pid_after_anti_windup io s)))"
    and alt: "pid_output (alt_current_control_vars (pid_after_rate_limit io s)) =
      rate_limit (max_change_rate s) (pid_output (alt_prev_control_vars s))
        (pid_output (alt_current_control_vars (pid_after_anti_windup io s)))"
    by (simp_all add: pid_after_rate_limit_def pid_rate_limit_def after_anti_windup_fields)
  show ?thesis
    unfolding az alt using assms by (simp add: rate_limit_def)
qed

theorem pid_rate_limit_bounds_change_witness:
  "0 \<le> max_change_rate example_statics
   \<and> \<bar>pid_output (az_current_control_vars
          (pid_after_anti_windup (io_at 0 10 (- 90)) example_statics))
        - pid_output (az_prev_control_vars example_statics)\<bar> > max_change_rate example_statics
   \<and> \<bar>pid_output (alt_current_control_vars
          (pid_after_anti_windup (io_at 0 10 (- 90)) example_statics))
        - pid_output (alt_prev_control_vars example_statics)\<bar> > max_change_rate example_statics
   \<and> pid_output (az_current_control_vars
          (pid_after_rate_limit (io_at 0 10 (- 90)) example_statics)) = 1 / 70
   \<and> pid_output (alt_current_control_vars
          (pid_after_rate_limit (io_at 0 10 (- 90)) example_statics)) = - 1 / 70"
  using pid_rate_limit_bounds_change [of example_statics "io_at 0 10 (- 90)"]
  by (simp add: io_at_def example_statics_def pid_stage_defs pid_init_defs Let_def clamp_defs)


section \<open>Saturation and its diagnostic code\<close>

text \<open>
  C2, as claimed, asks for a recorded saturation code on both axes. The source has one
  code, \<open>threshold\<close>, and only the azimuth block writes it. In the example configuration
  with the target 90 degrees above the telescope, the eighth call finds the altitude
  output at 4/35 before the clamp, above the bound of 1/10, and records and logs the
  code 0.
\<close>

theorem pid_saturation_code_not_for_altitude:
  "pid_output (alt_current_control_vars
      (pid_after_rate_limit (io_at (7 / 100) 0 90) (after_seven 0 90)))
     > max_motor_ang (after_seven 0 90)
   \<and> pid_output (alt_current_control_vars
        (pid_after_saturation (io_at (7 / 100) 0 90) (after_seven 0 90))) = 1 / 10
   \<and> threshold (pid_after_saturation (io_at (7 / 100) 0 90) (after_seven 0 90)) \<noteq> 1
   \<and> log_threshold (fst (snd (pid_update (io_at (7 / 100) 0 90) (after_seven 0 90)))) = 0"
  by (simp add: after_seven_def io_at_def example_statics_def pid_update_defs pid_stage_defs
        pid_init_defs Let_def clamp_defs lround_def)

text \<open>
  C2, amended. For every call, when \<open>max_motor_ang\<close> is not negative: after the saturation
  stage the output of each axis is within \<open>\<plusminus>max_motor_ang\<close>, and so is the output stored
  for the next step. The one recorded code, \<open>threshold\<close>, which is also the code in the log
  row, describes the azimuth axis only: it is 1 exactly when the azimuth output before the
  clamp was above \<open>max_motor_ang\<close>, 2 exactly when it was below \<open>- max_motor_ang\<close>, and 0
  exactly when it was within the bounds. Saturation of the altitude axis is not recorded.
\<close>

theorem pid_saturation_bound_and_azimuth_code:
  assumes "0 \<le> max_motor_ang s"
  shows "\<bar>pid_output (az_current_control_vars (pid_after_saturation io s))\<bar> \<le> max_motor_ang s
       \<and> \<bar>pid_output (alt_current_control_vars (pid_after_saturation io s))\<bar>
            \<le> max_motor_ang s
       \<and> (threshold (pid_after_saturation io s) = 1 \<longleftrightarrow>
            pid_output (az_current_control_vars (pid_after_rate_limit io s)) > max_motor_ang s)
       \<and> (threshold (pid_after_saturation io s) = 2 \<longleftrightarrow>
            pid_output (az_current_control_vars (pid_after_rate_limit io s))
              < - max_motor_ang s)
       \<and> (threshold (pid_after_saturation io s) = 0 \<longleftrightarrow>
            - max_motor_ang s \<le> pid_output (az_current_control_vars (pid_after_rate_limit io s))
            \<and> pid_output (az_current_control_vars (pid_after_rate_limit io s))
                 \<le> max_motor_ang s)
       \<and> log_threshold (fst (snd (pid_update io s))) = threshold (pid_after_saturation io s)
       \<and> \<bar>pid_output (az_prev_control_vars (snd (snd (pid_update io s))))\<bar> \<le> max_motor_ang s
       \<and> \<bar>pid_output (alt_prev_control_vars (snd (snd (pid_update io s))))\<bar>
            \<le> max_motor_ang s"
proof -
  have b: "\<bar>pid_output (az_current_control_vars (pid_after_saturation io s))\<bar>
             \<le> max_motor_ang s"
    "\<bar>pid_output (alt_current_control_vars (pid_after_saturation io s))\<bar> \<le> max_motor_ang s"
    using assms by (simp_all add: after_saturation_fields saturation_bound)
  have t: "(threshold (pid_after_saturation io s) = 1 \<longleftrightarrow>
            pid_output (az_current_control_vars (pid_after_rate_limit io s)) > max_motor_ang s)
       \<and> (threshold (pid_after_saturation io s) = 2 \<longleftrightarrow>
            pid_output (az_current_control_vars (pid_after_rate_limit io s))
              < - max_motor_ang s)
       \<and> (threshold (pid_after_saturation io s) = 0 \<longleftrightarrow>
            - max_motor_ang s \<le> pid_output (az_current_control_vars (pid_after_rate_limit io s))
            \<and> pid_output (az_current_control_vars (pid_after_rate_limit io s))
                 \<le> max_motor_ang s)"
    using assms by (auto simp add: after_saturation_fields saturation_code_def)
  have l: "log_threshold (fst (snd (pid_update io s))) = threshold (pid_after_saturation io s)"
    by (simp add: pid_update_defs Let_def)
  have p: "\<bar>pid_output (az_prev_control_vars (snd (snd (pid_update io s))))\<bar> \<le> max_motor_ang s"
    "\<bar>pid_output (alt_prev_control_vars (snd (snd (pid_update io s))))\<bar> \<le> max_motor_ang s"
    using b assms by (simp_all add: pid_update_defs Let_def)
  from b t l p show ?thesis by simp
qed

theorem pid_saturation_bound_and_azimuth_code_witness:
  "0 \<le> max_motor_ang (after_seven 10 0)
   \<and> pid_output (az_current_control_vars
        (pid_after_rate_limit (io_at (7 / 100) 10 0) (after_seven 10 0))) = 4 / 35
   \<and> pid_output (az_current_control_vars
        (pid_after_saturation (io_at (7 / 100) 10 0) (after_seven 10 0))) = 1 / 10
   \<and> threshold (pid_after_saturation (io_at (7 / 100) 10 0) (after_seven 10 0)) = 1
   \<and> log_threshold (fst (snd (pid_update (io_at (7 / 100) 10 0) (after_seven 10 0)))) = 1"
  using pid_saturation_bound_and_azimuth_code [of "after_seven 10 0" "io_at (7 / 100) 10 0"]
  by (simp add: after_seven_def io_at_def example_statics_def pid_update_defs pid_stage_defs
        pid_init_defs Let_def clamp_defs lround_def)

section \<open>The deadband\<close>

text \<open>
  What the deadband reaches, for every call: when the position error of an axis is below
  0.02 in magnitude, the \<open>pid_output\<close> of that axis is zero in the snapshot kept for the
  next step, and for azimuth in the log row. The motor command is computed before the
  deadband, from the output as it was after saturation.
\<close>

lemma pid_deadband_zeroes_stored_output:
  "(\<bar>track_az io - att_az (cur_att io)\<bar> < 2 / 100 \<longrightarrow>
      pid_output (az_prev_control_vars (snd (snd (pid_update io s)))) = 0
      \<and> pid_output (az_current_control_vars (snd (snd (pid_update io s)))) = 0
      \<and> log_pid_output (fst (snd (pid_update io s))) = 0)
   \<and> (\<bar>track_alt io - att_alt (cur_att io)\<bar> < 2 / 100 \<longrightarrow>
      pid_output (alt_prev_control_vars (snd (snd (pid_update io s)))) = 0
      \<and> pid_output (alt_current_control_vars (snd (snd (pid_update io s)))) = 0)
   \<and> position_error (az_prev_control_vars (snd (snd (pid_update io s))))
       = track_az io - att_az (cur_att io)
   \<and> position_error (alt_prev_control_vars (snd (snd (pid_update io s))))
       = track_alt io - att_alt (cur_att io)
   \<and> mot_az (fst (pid_update io s))
       = lround (step_per_deg s
           * pid_output (az_current_control_vars (pid_after_saturation io s)))
   \<and> mot_alt (fst (pid_update io s))
       = lround (step_per_deg s
           * pid_output (alt_current_control_vars (pid_after_saturation io s)))"
  by (simp add: pid_update_defs Let_def after_saturation_fields(5,6,7))

text \<open>
  C3. The claim: when the position error of an axis is below 0.02 in magnitude, the final
  output of the axis is forced to zero and actuation is suppressed, the emitted motor step
  command of the axis being 0. The source forces the output to zero only after it has
  converted it to steps. In the example configuration, a first call with the azimuth
  target 0.01 degrees from the telescope has an error inside the deadband, stores and
  logs an output of 0, and commands 5 azimuth steps.
\<close>

theorem pid_deadband_steps_not_zero:
  "\<bar>track_az (io_at 0 (1 / 100) 0) - att_az (cur_att (io_at 0 (1 / 100) 0))\<bar> < 2 / 100
   \<and> \<bar>position_error (az_prev_control_vars
          (snd (snd (pid_update (io_at 0 (1 / 100) 0) example_statics))))\<bar> < 2 / 100
   \<and> pid_output (az_prev_control_vars
          (snd (snd (pid_update (io_at 0 (1 / 100) 0) example_statics)))) = 0
   \<and> log_pid_output (fst (snd (pid_update (io_at 0 (1 / 100) 0) example_statics))) = 0
   \<and> log_mot_az (fst (snd (pid_update (io_at 0 (1 / 100) 0) example_statics))) = 5
   \<and> mot_az (fst (pid_update (io_at 0 (1 / 100) 0) example_statics)) = 5"
  by (simp add: io_at_def example_statics_def pid_update_defs pid_stage_defs pid_init_defs
        Let_def clamp_defs lround_def)

section \<open>The first step towards a target at 10 degrees\<close>

text \<open>
  C5, as claimed: after \<open>init_pid\<close>, with the azimuth gains overridden to \<open>kp = 1\<close>,
  \<open>ki = 0\<close>, \<open>kd = 0\<close>, a time step of 0.01, the telescope at 0 and the target at 10, the
  integral of the first step is 0, its output 10 when that is within \<open>max_motor_ang\<close>, and
  the azimuth step command \<open>lround (step_per_deg * 10)\<close>. With one step per degree
  (\<open>max_motor_ang = 35\<close>, \<open>max_change_rate = 5\<close>) the integral accumulator is 0.1, and the
  output, limited to a change of 5 from the previous output 0, is 5, which is 5 steps
  and not 10.
\<close>

theorem first_step_scenario_counterexample:
  "10 \<le> max_motor_ang (statics_of (change_pid_values 1 1 0 0 gain_mutexes_init (pid_fresh 10000000 360 1 1)))
   \<and> integral (az_prev_control_vars (snd (snd (pid_update (io_at 0 10 0)
        (statics_of (change_pid_values 1 1 0 0 gain_mutexes_init (pid_fresh 10000000 360 1 1))))))) \<noteq> 0
   \<and> pid_output (az_prev_control_vars (snd (snd (pid_update (io_at 0 10 0)
        (statics_of (change_pid_values 1 1 0 0 gain_mutexes_init (pid_fresh 10000000 360 1 1))))))) \<noteq> 10
   \<and> mot_az (fst (pid_update (io_at 0 10 0)
        (statics_of (change_pid_values 1 1 0 0 gain_mutexes_init (pid_fresh 10000000 360 1 1)))))
       \<noteq> lround (step_per_deg (statics_of (change_pid_values 1 1 0 0 gain_mutexes_init (pid_fresh 10000000 360 1 1)))
                  * 10)
   \<and> mot_az (fst (pid_update (io_at 0 10 0)
        (statics_of (change_pid_values 1 1 0 0 gain_mutexes_init (pid_fresh 10000000 360 1 1))))) = 5"
  by (simp add: io_at_def pid_update_defs pid_stage_defs pid_init_defs Let_def clamp_defs
        lround_def)

text \<open>
  C5, amended. In that scenario, for every positive conversion factor
  \<open>spd = STEPS_PER_REVOLUTION * MICRO_STEP_FACTOR * GEARBOX_RATIO / 360\<close>: the PID law
  gives an integral accumulator of \<open>10 * 0.01 = 0.1\<close>, whose contribution \<open>ki * integral\<close>
  to the output (the logged integral term) is 0, and an output of 10. The output of the
  step is then limited to a change of \<open>max_change_rate = 5 / spd\<close> from the previous
  output 0: it is 10, and the azimuth command \<open>lround (spd * 10)\<close>, only when
  \<open>10 \<le> 5 / spd\<close>; otherwise the output is \<open>5 / spd\<close> and the command is 5 steps. The
  accumulator stored for the next step is 0.1.
\<close>

theorem first_step_scenario:
  assumes "0 < A * B * C" and "att_az (cur_att io) = 0" and "track_az io = 10"
  shows "integral (az_current_control_vars
            (pid_after_main io (statics_of (change_pid_values 1 1 0 0 gain_mutexes_init (pid_fresh 10000000 A B C)))))
           = 1 / 10
       \<and> pid_output (az_current_control_vars
            (pid_after_main io (statics_of (change_pid_values 1 1 0 0 gain_mutexes_init (pid_fresh 10000000 A B C)))))
           = 10
       \<and> integral (az_prev_control_vars (snd (snd
            (pid_update io (statics_of (change_pid_values 1 1 0 0 gain_mutexes_init (pid_fresh 10000000 A B C)))))))
           = 1 / 10
       \<and> log_integral (fst (snd
            (pid_update io (statics_of (change_pid_values 1 1 0 0 gain_mutexes_init (pid_fresh 10000000 A B C))))))
           = 0
       \<and> pid_output (az_prev_control_vars (snd (snd
            (pid_update io (statics_of (change_pid_values 1 1 0 0 gain_mutexes_init (pid_fresh 10000000 A B C)))))))
           = (if 10 > 5 / (A * B * C / 360) then 5 / (A * B * C / 360) else 10)
       \<and> mot_az (fst
            (pid_update io (statics_of (change_pid_values 1 1 0 0 gain_mutexes_init (pid_fresh 10000000 A B C)))))
           = (if 10 > 5 / (A * B * C / 360) then 5 else lround (A * B * C / 360 * 10))"
proof -
  define spd where "spd = A * B * C / 360"
  have spd: "0 < spd" using assms(1) by (simp add: spd_def)
  have l5: "lround 5 = 5" using lround_of_int [of 5] by simp
  have a: "5 / spd \<le> 35 / spd" "- (35 / spd) \<le> 5 / spd" "\<not> 5 / spd < - (35 / spd)"
    using spd by (simp_all add: field_simps)
  have b: "\<not> 10 > 5 / spd \<Longrightarrow> 10 \<le> 35 / spd"
    using spd by (simp add: field_simps)
  show ?thesis
    unfolding spd_def [symmetric]
    using spd assms(2,3) a b
    by (simp add: pid_update_defs pid_stage_defs pid_init_defs Let_def clamp_defs
          spd_def [symmetric] l5)
qed

theorem first_step_scenario_witness:
  "(0 :: real) < 200 * 16 * (315 / 8)
   \<and> att_az (cur_att (io_at 0 10 0)) = 0 \<and> track_az (io_at 0 10 0) = 10
   \<and> integral (az_prev_control_vars (snd (snd (pid_update (io_at 0 10 0)
        (statics_of (change_pid_values 1 1 0 0 gain_mutexes_init (pid_fresh 10000000 200 16 (315 / 8))))))))
       = 1 / 10
   \<and> pid_output (az_prev_control_vars (snd (snd (pid_update (io_at 0 10 0)
        (statics_of (change_pid_values 1 1 0 0 gain_mutexes_init (pid_fresh 10000000 200 16 (315 / 8))))))))
       = 1 / 70
   \<and> mot_az (fst (pid_update (io_at 0 10 0)
        (statics_of (change_pid_values 1 1 0 0 gain_mutexes_init (pid_fresh 10000000 200 16 (315 / 8)))))) = 5"
  using first_step_scenario [of 200 16 "315 / 8" "io_at 0 10 0"]
  by (simp add: io_at_def)

end
